theory Spec2Isabelle
  imports Complex_Main "HOL-Library.Sublist" "HOL-Library.AList"
begin

section \<open>Strings\<close>

text \<open>
  Python strings are modelled as \<^typ>\<open>string\<close>, one \<^typ>\<open>char\<close> per code point, for
  the code points below 256 (Latin-1). On that range \<^verbatim>\<open>str.lower()\<close> maps \<^verbatim>\<open>A-Z\<close> and the
  accented capitals \<^verbatim>\<open>0xC0-0xDE\<close> (without the multiplication sign \<^verbatim>\<open>0xD7\<close>) to the code
  point 32 above, and leaves every other code point alone; the length is preserved.
  Beyond that range \<^verbatim>\<open>str.lower()\<close> depends on the context of a character and can change
  the length; such strings are outside the model.
  \<^verbatim>\<open>len(s)\<close> is \<^term>\<open>length s\<close> and \<^verbatim>\<open>kw in s\<close> is \<^term>\<open>sublist kw s\<close>.
\<close>

definition lower_char :: "char \<Rightarrow> char" where
  "lower_char c =
     (let n = (of_char c :: nat)
      in if (65 \<le> n \<and> n \<le> 90) \<or> (192 \<le> n \<and> n \<le> 222 \<and> n \<noteq> 215)
         then char_of (n + 32) else c)"

definition lower :: "string \<Rightarrow> string" where
  "lower s = map lower_char s"

section \<open>Errors and floats\<close>

text \<open>
  Every \<^verbatim>\<open>raise\<close> of the source is a value of \<open>error\<close>; a function that can raise
  returns \<open>error + 'a\<close>. Python floats are modelled as \<^typ>\<open>real\<close>: the claims only
  compare them with literals and carry them around.
\<close>

datatype error =
    ValueError string
  | KeyError string
  | TypeError
  | GenerationError string
  | StorageError

section \<open>core/cache.py\<close>

text \<open>
  The dictionary that \<^verbatim>\<open>QueryCache.set\<close> stores has exactly these eight keys. The
  dictionary it receives may have more, which is the extension part of the record scheme;
  \<^verbatim>\<open>clean_result\<close> is \<open>cache_entry.truncate\<close>.
\<close>

record cache_entry =
  query :: string
  model_used :: string
  response :: string
  speed_ms :: real
  accuracy :: real
  cost :: real
  classification :: string
  confidence :: real

text \<open>
  \<^verbatim>\<open>diskcache.Cache\<close> is an external library. Its documented behaviour is modelled by a
  table of rows, each with the stored value and an optional expiry time:
  \<^verbatim>\<open>set(key, value, expire)\<close> stores the row with expiry \<^verbatim>\<open>now + expire\<close>, or with none
  when \<^verbatim>\<open>expire\<close> is \<^verbatim>\<open>None\<close>; \<^verbatim>\<open>cache[key] = value\<close> is \<^verbatim>\<open>set(key, value)\<close> with the default
  \<^verbatim>\<open>expire=None\<close>; \<^verbatim>\<open>get(key)\<close> returns the value of a row that has no expiry time or one
  in the future, and \<^verbatim>\<open>None\<close> otherwise. Eviction under the size limit is not modelled.
\<close>

record dc_row =
  row_value :: cache_entry
  expire_time :: "real option"

type_synonym diskcache = "(string \<times> dc_row) list"

definition dc_set :: "diskcache \<Rightarrow> string \<Rightarrow> cache_entry \<Rightarrow> real option \<Rightarrow> real \<Rightarrow> diskcache" where
  "dc_set rows key v expire now =
     AList.update key \<lparr>row_value = v, expire_time = map_option (\<lambda>e. now + e) expire\<rparr> rows"

definition dc_setitem :: "diskcache \<Rightarrow> string \<Rightarrow> cache_entry \<Rightarrow> real \<Rightarrow> diskcache" where
  "dc_setitem rows key v now = dc_set rows key v None now"

definition dc_get :: "diskcache \<Rightarrow> string \<Rightarrow> real \<Rightarrow> cache_entry option" where
  "dc_get rows key now =
     (case map_of rows key of
        None \<Rightarrow> None
      | Some r \<Rightarrow>
          (case expire_time r of
             None \<Rightarrow> Some (row_value r)
           | Some t \<Rightarrow> if now < t then Some (row_value r) else None))"

definition dc_clear :: "diskcache \<Rightarrow> diskcache" where
  "dc_clear rows = []"

record QueryCache =
  ttl_seconds :: nat
  cache :: diskcache

text \<open>
  \<^verbatim>\<open>hashlib.md5(...).hexdigest()\<close> is the parameter \<open>md5\<close>, a function from the encoded
  text to its digest; UTF-8 encoding is injective and is left out.
\<close>

definition get_query_hash :: "(string \<Rightarrow> string) \<Rightarrow> string \<Rightarrow> string" where
  "get_query_hash md5 q = md5 (lower q)"

definition cache_get :: "(string \<Rightarrow> string) \<Rightarrow> QueryCache \<Rightarrow> string \<Rightarrow> real \<Rightarrow> cache_entry option" where
  "cache_get md5 c q now = (let query_hash = get_query_hash md5 q in dc_get (cache c) query_hash now)"

definition cache_set ::
  "(string \<Rightarrow> string) \<Rightarrow> QueryCache \<Rightarrow> string \<Rightarrow> 'a cache_entry_scheme \<Rightarrow> real \<Rightarrow> QueryCache" where
  "cache_set md5 c q result now =
     (let query_hash = get_query_hash md5 q;
          clean_result = cache_entry.truncate result
      in c\<lparr>cache := dc_setitem (cache c) query_hash clean_result now\<rparr>)"

definition cache_clear :: "QueryCache \<Rightarrow> QueryCache" where
  "cache_clear c = c\<lparr>cache := dc_clear (cache c)\<rparr>"

text \<open>
  \<^verbatim>\<open>get_stats\<close> calls three operations of the library, each of which reads the
  underlying storage and can raise. \<open>dc_calls\<close> gives the outcome of each call: of
  \<^verbatim>\<open>stats()\<close>, of \<^verbatim>\<open>volume()\<close> and \<^verbatim>\<open>len()\<close> inside the \<^verbatim>\<open>try\<close> block, and of
  \<^verbatim>\<open>volume()\<close> and \<^verbatim>\<open>len()\<close> inside the \<^verbatim>\<open>except\<close> handler. The value of \<^verbatim>\<open>stats()\<close> is a
  tuple of integers, or something else.
\<close>

datatype pystats = StatsTuple "int list" | StatsOther

record dc_calls =
  stats_call :: "error + pystats"
  volume_try :: "error + nat"
  len_try :: "error + nat"
  volume_handler :: "error + nat"
  len_handler :: "error + nat"

record cache_stats =
  stats_size :: nat
  stats_items :: nat
  hit_rate :: real

definition get_stats_try :: "dc_calls \<Rightarrow> error + cache_stats" where
  "get_stats_try io =
     (case stats_call io of
        Inl e \<Rightarrow> Inl e
      | Inr stats \<Rightarrow>
          (let rate =
                 (case stats of
                    StatsTuple xs \<Rightarrow>
                      if length xs \<ge> 2
                      then (let hits = xs ! 0; misses = xs ! 1; total = hits + misses
                            in if total > 0 then real_of_int hits / real_of_int total else 0)
                      else 0
                  | StatsOther \<Rightarrow> 0)
           in case volume_try io of
                Inl e \<Rightarrow> Inl e
              | Inr v \<Rightarrow>
                  (case len_try io of
                     Inl e \<Rightarrow> Inl e
                   | Inr n \<Rightarrow> Inr \<lparr>stats_size = v, stats_items = n, hit_rate = rate\<rparr>)))"

definition get_stats :: "dc_calls \<Rightarrow> error + cache_stats" where
  "get_stats io =
     (case get_stats_try io of
        Inr r \<Rightarrow> Inr r
      | Inl e \<Rightarrow>
          (case volume_handler io of
             Inl e' \<Rightarrow> Inl e'
           | Inr v \<Rightarrow>
               (case len_handler io of
                  Inl e' \<Rightarrow> Inl e'
                | Inr n \<Rightarrow> Inr \<lparr>stats_size = v, stats_items = n, hit_rate = 0\<rparr>)))"

section \<open>core/classifier.py\<close>

text \<open>
  The classifier's configuration dictionary: a field is \<open>None\<close> when the key is absent,
  where the source reads it with \<^verbatim>\<open>config.get(key, default)\<close>. The fitted scikit-learn
  model is the function \<open>trained_predict\<close>, giving the predicted class and the largest
  class probability.
\<close>

record classifier_config =
  simple_keywords :: "string list option"
  advanced_keywords :: "string list option"
  query_length_thresholds :: "(string \<rightharpoonup> real) option"

record QueryClassifier =
  cls_config :: classifier_config
  is_trained :: bool
  trained_predict :: "string \<Rightarrow> string \<times> real"

definition rule_based_classification :: "classifier_config \<Rightarrow> string \<Rightarrow> string \<times> real" where
  "rule_based_classification config q =
     (let query_lower = lower q;
          simple_kws = (case simple_keywords config of None \<Rightarrow> [] | Some ks \<Rightarrow> ks);
          advanced_kws = (case advanced_keywords config of None \<Rightarrow> [] | Some ks \<Rightarrow> ks);
          has_simple = list_ex (\<lambda>kw. sublist kw query_lower) simple_kws;
          has_advanced = list_ex (\<lambda>kw. sublist kw query_lower) advanced_kws;
          length_thresholds =
            (case query_length_thresholds config of None \<Rightarrow> Map.empty | Some m \<Rightarrow> m);
          is_short =
            (real (length q) < (case length_thresholds ''simple'' of None \<Rightarrow> 80 | Some t \<Rightarrow> t));
          is_long =
            (real (length q) > (case length_thresholds ''advanced'' of None \<Rightarrow> 200 | Some t \<Rightarrow> t))
      in if has_advanced \<or> is_long then (''advanced'', if has_advanced then 0.85 else 0.70)
         else if has_simple \<and> is_short then (''simple'', if has_simple then 0.90 else 0.75)
         else (''medium'', 0.80))"

definition classify :: "QueryClassifier \<Rightarrow> string \<Rightarrow> string \<times> real" where
  "classify cls q =
     (if is_trained cls then trained_predict cls q
      else rule_based_classification (cls_config cls) q)"

section \<open>core/models.py\<close>

text \<open>
  A model's configuration dictionary, with \<open>None\<close> for an absent key. The two providers
  are external services; \<open>backends\<close> gives what each returns for a configuration and a
  query: the text, the latency and the estimated accuracy, or an error.
\<close>

record model_config =
  model_name :: string
  provider :: "string option"
  model_cost :: "real option"

record backends =
  generate_huggingface_response :: "model_config \<Rightarrow> string \<Rightarrow> error + (string \<times> real \<times> real)"
  generate_ollama_response :: "model_config \<Rightarrow> string \<Rightarrow> error + (string \<times> real \<times> real)"

definition generate_response ::
  "backends \<Rightarrow> model_config \<Rightarrow> string \<Rightarrow> error + (string \<times> real \<times> real)" where
  "generate_response b mc q =
     (let p = (case provider mc of None \<Rightarrow> ''huggingface'' | Some x \<Rightarrow> x)
      in if p = ''huggingface'' then generate_huggingface_response b mc q
         else if p = ''ollama'' then generate_ollama_response b mc q
         else Inl (ValueError (''Unknown provider: '' @ p)))"

section \<open>core/router.py\<close>

text \<open>
  A configured threshold is a number, or a value that a float cannot be compared with
  (\<^verbatim>\<open>confidence >= threshold\<close> then raises \<^verbatim>\<open>TypeError\<close>). The sections and keys that the
  source reads with \<^verbatim>\<open>[...]\<close> are \<open>None\<close> when absent, and reading them raises \<^verbatim>\<open>KeyError\<close>.
\<close>

datatype threshold = Num real | NonNumeric

record routing_config =
  confidence_thresholds :: "(string \<rightharpoonup> threshold) option"
  fallback_model :: "string option"

record config =
  models :: "string \<rightharpoonup> model_config"
  routing :: "routing_config option"

record RoutingResult = cache_entry +
  from_cache :: bool

record metrics =
  total_queries :: nat
  cache_hits :: nat
  model_usage :: "string \<rightharpoonup> nat"
  total_cost :: real
  total_time :: real

text \<open>
  The router's fields \<^verbatim>\<open>self.config\<close>, \<^verbatim>\<open>self.cache\<close>, \<^verbatim>\<open>self.classifier\<close> and
  \<^verbatim>\<open>self.metrics\<close>; the model manager is the \<open>backends\<close> parameter of \<open>route_query\<close>.
\<close>

record Router =
  router_config :: config
  router_cache :: QueryCache
  router_classifier :: QueryClassifier
  router_metrics :: metrics

definition model_mapping :: "string \<rightharpoonup> string" where
  "model_mapping =
     [''simple'' \<mapsto> ''ollama-simple'', ''medium'' \<mapsto> ''ollama-medium'',
      ''advanced'' \<mapsto> ''gpt2-large'']"

text \<open>The body of the \<^verbatim>\<open>try\<close> block of \<^verbatim>\<open>_select_model\<close>.\<close>

definition select_model_try ::
  "(string \<rightharpoonup> threshold) \<Rightarrow> string \<Rightarrow> string \<Rightarrow> real \<Rightarrow> error + string" where
  "select_model_try thresholds fallback label conf =
     (case thresholds label of
        None \<Rightarrow> Inr fallback
      | Some NonNumeric \<Rightarrow> Inl TypeError
      | Some (Num t) \<Rightarrow>
          if conf \<ge> t
          then Inr (case model_mapping label of None \<Rightarrow> fallback | Some m \<Rightarrow> m)
          else Inr fallback)"

definition select_model :: "config \<Rightarrow> string \<Rightarrow> real \<Rightarrow> error + string" where
  "select_model cfg label conf =
     (case routing cfg of
        None \<Rightarrow> Inl (KeyError ''routing'')
      | Some rc \<Rightarrow>
          (case confidence_thresholds rc of
             None \<Rightarrow> Inl (KeyError ''confidence_thresholds'')
           | Some thresholds \<Rightarrow>
               (let fallback = (case fallback_model rc of None \<Rightarrow> ''ollama-simple'' | Some m \<Rightarrow> m)
                in case select_model_try thresholds fallback label conf of
                     Inr m \<Rightarrow> Inr m
                   | Inl e \<Rightarrow> Inr fallback)))"

definition update_metrics :: "metrics \<Rightarrow> string \<Rightarrow> real \<Rightarrow> real \<Rightarrow> metrics" where
  "update_metrics m model speed c =
     m\<lparr>model_usage :=
         (model_usage m)(model \<mapsto> (case model_usage m model of None \<Rightarrow> 0 | Some n \<Rightarrow> n) + 1),
       total_cost := total_cost m + c,
       total_time := total_time m + speed\<rparr>"

text \<open>
  \<^verbatim>\<open>if force_model:\<close> tests the truth value of an optional string: \<^verbatim>\<open>None\<close> and the empty
  string are false.
\<close>

definition truthy :: "string option \<Rightarrow> bool" where
  "truthy s = (case s of None \<Rightarrow> False | Some x \<Rightarrow> x \<noteq> [])"

text \<open>
  \<^verbatim>\<open>route_query\<close> returns the result or the exception raised, together with the router as
  the call leaves it. \<open>now\<close> is the time of the cache read and \<open>now'\<close> the time of the cache
  write. A cached dictionary always has its eight keys, so \<^verbatim>\<open>if cached_result:\<close> is true
  exactly when the read found an entry.
\<close>

definition route_query ::
  "(string \<Rightarrow> string) \<Rightarrow> backends \<Rightarrow> real \<Rightarrow> real \<Rightarrow> Router \<Rightarrow> string \<Rightarrow> string option
     \<Rightarrow> (error + RoutingResult) \<times> Router" where
  "route_query md5 b now now' r q force_model =
     (let r1 = r\<lparr>router_metrics :=
                  (router_metrics r)\<lparr>total_queries := total_queries (router_metrics r) + 1\<rparr>\<rparr>
      in if truthy force_model then
           (let fm = the force_model
            in case models (router_config r1) fm of
                 None \<Rightarrow> (Inl (ValueError (''Model '' @ fm @ '' not found in configuration'')), r1)
               | Some mc \<Rightarrow>
                   (case generate_response b mc q of
                      Inl e \<Rightarrow> (Inl e, r1)
                    | Inr (resp, speed, acc) \<Rightarrow>
                        (case model_cost mc of
                           None \<Rightarrow> (Inl (KeyError ''cost''), r1)
                         | Some c \<Rightarrow>
                             (Inr \<lparr>query = q, model_used = fm, response = resp, speed_ms = speed,
                                   accuracy = acc, cost = c, classification = ''forced'',
                                   confidence = 1.0, from_cache = False\<rparr>,
                              r1\<lparr>router_metrics := update_metrics (router_metrics r1) fm speed c\<rparr>))))
         else
           (case cache_get md5 (router_cache r1) q now of
              Some cached_result \<Rightarrow>
                (Inr (cache_entry.extend cached_result (RoutingResult.fields True)),
                 r1\<lparr>router_metrics :=
                      (router_metrics r1)\<lparr>cache_hits := cache_hits (router_metrics r1) + 1\<rparr>\<rparr>)
            | None \<Rightarrow>
                (case classify (router_classifier r1) q of
                   (label, conf) \<Rightarrow>
                     (case select_model (router_config r1) label conf of
                        Inl e \<Rightarrow> (Inl e, r1)
                      | Inr chosen_model \<Rightarrow>
                          (case models (router_config r1) chosen_model of
                             None \<Rightarrow> (Inl (KeyError chosen_model), r1)
                           | Some mc \<Rightarrow>
                               (case generate_response b mc q of
                                  Inl e \<Rightarrow> (Inl e, r1)
                                | Inr (resp, speed, acc) \<Rightarrow>
                                    (case model_cost mc of
                                       None \<Rightarrow> (Inl (KeyError ''cost''), r1)
                                     | Some c \<Rightarrow>
                                         (let r2 = r1\<lparr>router_metrics :=
                                                        update_metrics (router_metrics r1) chosen_model speed c\<rparr>;
                                              result_data =
                                                \<lparr>query = q, model_used = chosen_model,
                                                 response = resp, speed_ms = speed, accuracy = acc,
                                                 cost = c, classification = label,
                                                 confidence = conf\<rparr>;
                                              r3 = r2\<lparr>router_cache :=
                                                        cache_set md5 (router_cache r2) q result_data now'\<rparr>
                                          in (Inr (cache_entry.extend result_data
                                                     (RoutingResult.fields False)),
                                              r3)))))))))"

definition clear_cache :: "Router \<Rightarrow> Router" where
  "clear_cache r = r\<lparr>router_cache := cache_clear (router_cache r)\<rparr>"

section \<open>Notions used in the statements\<close>



text \<open>
  The fallback model of a routing section: the configured one, or \<^verbatim>\<open>ollama-simple\<close>
  when the key is absent, as \<^verbatim>\<open>config.get('fallback_model', 'ollama-simple')\<close> reads it.
\<close>

definition configured_fallback :: "routing_config \<Rightarrow> string" where
  "configured_fallback rc = (case fallback_model rc of None \<Rightarrow> ''ollama-simple'' | Some m \<Rightarrow> m)"

text \<open>
  The label has a configured numeric threshold and the confidence reaches it.
\<close>

definition threshold_met :: "(string \<rightharpoonup> threshold) \<Rightarrow> string \<Rightarrow> real \<Rightarrow> bool" where
  "threshold_met th label conf =
     (case th label of None \<Rightarrow> False | Some NonNumeric \<Rightarrow> False | Some (Num t) \<Rightarrow> t \<le> conf)"

text \<open>
  The router after the first statement of \<^verbatim>\<open>route_query\<close>: \<^verbatim>\<open>total_queries\<close> is one
  greater and everything else is as before.
\<close>

definition bump_total :: "Router \<Rightarrow> Router" where
  "bump_total r =
     r\<lparr>router_metrics := (router_metrics r)\<lparr>total_queries := total_queries (router_metrics r) + 1\<rparr>\<rparr>"

section \<open>Example configurations and states\<close>

definition empty_cache :: QueryCache where
  "empty_cache = \<lparr>ttl_seconds = 3600, cache = []\<rparr>"

definition entry0 :: cache_entry where
  "entry0 =
     \<lparr>query = ''Hello'', model_used = ''ollama-simple'', response = ''Hi'', speed_ms = 12,
      accuracy = 0.8, cost = 0.001, classification = ''medium'', confidence = 0.8\<rparr>"


definition lower_case_config :: classifier_config where
  "lower_case_config =
     \<lparr>simple_keywords = Some [''what is''], advanced_keywords = Some [''analyze''],
      query_length_thresholds = Some [''simple'' \<mapsto> 80, ''advanced'' \<mapsto> 200]\<rparr>"

text \<open>
  A digest without collisions for the examples, a registry of three models plus one under
  the empty id, a routing section, model managers that answer and that fail, and routers
  built from them.
\<close>

definition plain_digest :: "string \<Rightarrow> string" where
  "plain_digest s = s"

definition default_routing :: routing_config where
  "default_routing =
     \<lparr>confidence_thresholds =
        Some [''simple'' \<mapsto> Num 0.6, ''medium'' \<mapsto> Num 0.7, ''advanced'' \<mapsto> Num 0.8,
              ''expert'' \<mapsto> Num 0.5, ''broken'' \<mapsto> NonNumeric],
      fallback_model = Some ''ollama-simple''\<rparr>"

definition ollama_simple :: model_config where
  "ollama_simple = \<lparr>model_name = ''phi'', provider = Some ''ollama'', model_cost = Some 0.001\<rparr>"

definition ollama_medium :: model_config where
  "ollama_medium = \<lparr>model_name = ''gemma:2b'', provider = Some ''ollama'', model_cost = Some 0.002\<rparr>"

definition gpt2_large :: model_config where
  "gpt2_large = \<lparr>model_name = ''gpt2-large'', provider = Some ''huggingface'', model_cost = Some 0.01\<rparr>"

definition full_config :: config where
  "full_config =
     \<lparr>models = [''ollama-simple'' \<mapsto> ollama_simple, ''ollama-medium'' \<mapsto> ollama_medium,
                ''gpt2-large'' \<mapsto> gpt2_large, '''' \<mapsto> ollama_simple],
      routing = Some default_routing\<rparr>"

definition no_thresholds_config :: config where
  "no_thresholds_config =
     \<lparr>models = Map.empty,
      routing = Some \<lparr>confidence_thresholds = None, fallback_model = Some ''ollama-simple''\<rparr>\<rparr>"

definition no_models_config :: config where
  "no_models_config = \<lparr>models = Map.empty, routing = Some default_routing\<rparr>"

definition answering_backends :: backends where
  "answering_backends =
     \<lparr>generate_huggingface_response = (\<lambda>mc q. Inr (''text'', 300, 0.85)),
      generate_ollama_response = (\<lambda>mc q. Inr (''text'', 40, 0.8))\<rparr>"

definition failing_backends :: backends where
  "failing_backends =
     \<lparr>generate_huggingface_response = (\<lambda>mc q. Inl (GenerationError ''pipeline'')),
      generate_ollama_response = (\<lambda>mc q. Inl (GenerationError ''Ollama API error''))\<rparr>"

definition rule_classifier :: QueryClassifier where
  "rule_classifier =
     \<lparr>cls_config = lower_case_config, is_trained = False,
      trained_predict = (\<lambda>q. (''medium'', 0.5))\<rparr>"

definition zero_metrics :: metrics where
  "zero_metrics =
     \<lparr>total_queries = 0, cache_hits = 0, model_usage = Map.empty, total_cost = 0, total_time = 0\<rparr>"

definition fresh_router :: "config \<Rightarrow> Router" where
  "fresh_router cfg =
     \<lparr>router_config = cfg, router_cache = empty_cache, router_classifier = rule_classifier,
      router_metrics = zero_metrics\<rparr>"

definition warm_router :: Router where
  "warm_router =
     (fresh_router full_config)\<lparr>router_cache := cache_set plain_digest empty_cache ''Hello'' entry0 0\<rparr>"

definition failing_storage :: dc_calls where
  "failing_storage =
     \<lparr>stats_call = Inr (StatsTuple [3, 1]), volume_try = Inl StorageError, len_try = Inr 0,
      volume_handler = Inl StorageError, len_handler = Inr 0\<rparr>"

section \<open>Properties of the cache\<close>

lemma length_lower: "length (lower s) = length s"
  by (simp add: lower_def)

lemma dc_get_setitem_same: "dc_get (dc_setitem rows k v now) k now' = Some v"
  by (simp add: dc_get_def dc_setitem_def dc_set_def AList.update_conv')

lemma dc_get_setitem_other:
  "k' \<noteq> k \<Longrightarrow> dc_get (dc_setitem rows k v now) k' now' = dc_get rows k' now'"
  by (simp add: dc_get_def dc_setitem_def dc_set_def AList.update_conv')

lemma get_query_hash_lower:
  "lower q1 = lower q2 \<Longrightarrow> get_query_hash md5 q1 = get_query_hash md5 q2"
  by (simp add: get_query_hash_def)

lemma get_query_hash_inj:
  "inj md5 \<Longrightarrow> (get_query_hash md5 q1 = get_query_hash md5 q2) = (lower q1 = lower q2)"
  by (auto simp: get_query_hash_def dest: injD)

lemma cache_get_set_same_key:
  "get_query_hash md5 q2 = get_query_hash md5 q1 \<Longrightarrow>
   cache_get md5 (cache_set md5 c q1 result now) q2 now' = Some (cache_entry.truncate result)"
  by (simp add: cache_get_def cache_set_def dc_get_setitem_same)

lemma cache_get_set_other_key:
  "get_query_hash md5 q2 \<noteq> get_query_hash md5 q1 \<Longrightarrow>
   cache_get md5 (cache_set md5 c q1 result now) q2 now' = cache_get md5 c q2 now'"
  by (simp add: cache_get_def cache_set_def dc_get_setitem_other)

lemma lower_Hello: "lower ''Hello'' = lower ''HELLO''"
  by code_simp

lemma lower_Hello_ne: "lower ''Hello'' \<noteq> lower ''Help''"
  by code_simp

text \<open>
  C1. The claim is that an entry stored at time \<open>T\<close> is absent from \<^verbatim>\<open>get\<close> at every
  time from \<open>T + ttl_seconds\<close> on. The source keeps \<^verbatim>\<open>ttl_seconds\<close> in a field and never
  hands it to the library, so the row has no expiry time: the entry stored at time \<open>T\<close> is
  still returned at time \<open>T + ttl_seconds + d\<close>, for every \<open>d\<close>.
\<close>

theorem ttl_seconds_never_applied:
  "cache_get md5 (cache_set md5 c q e T) q (T + real (ttl_seconds c) + d) =
     Some (cache_entry.truncate e)"
  by (simp add: cache_get_set_same_key)

text \<open>
  C5. The cache key is the digest of the lowercased query and of nothing else. Two
  queries with the same lowercased text have the same key, and an entry stored under one
  is returned by \<^verbatim>\<open>get\<close> under the other. When the digest has no collisions, two queries
  with different lowercased texts have different keys and storing under one leaves the
  lookup of the other as it was; in particular a trailing space changes the key.
\<close>

theorem cache_key_is_hash_of_lowercased_query:
  "(lower q1 = lower q2 \<longrightarrow>
      get_query_hash md5 q1 = get_query_hash md5 q2 \<and>
      cache_get md5 (cache_set md5 c q1 result now) q2 now' = Some (cache_entry.truncate result)) \<and>
   (inj md5 \<and> lower q1 \<noteq> lower q2 \<longrightarrow>
      get_query_hash md5 q1 \<noteq> get_query_hash md5 q2 \<and>
      cache_get md5 (cache_set md5 c q1 result now) q2 now' = cache_get md5 c q2 now') \<and>
   (inj md5 \<longrightarrow> get_query_hash md5 (q1 @ '' '') \<noteq> get_query_hash md5 q1)"
proof (intro conjI impI)
  assume eq: "lower q1 = lower q2"
  show "get_query_hash md5 q1 = get_query_hash md5 q2"
    using eq by (rule get_query_hash_lower)
  then show "cache_get md5 (cache_set md5 c q1 result now) q2 now' = Some (cache_entry.truncate result)"
    by (simp add: cache_get_set_same_key)
next
  assume h: "inj md5 \<and> lower q1 \<noteq> lower q2"
  then show ne: "get_query_hash md5 q1 \<noteq> get_query_hash md5 q2"
    by (simp add: get_query_hash_inj)
  then show "cache_get md5 (cache_set md5 c q1 result now) q2 now' = cache_get md5 c q2 now'"
    by (metis cache_get_set_other_key)
next
  assume "inj md5"
  moreover have "lower (q1 @ '' '') \<noteq> lower q1"
    by (metis length_lower length_append_singleton n_not_Suc_n)
  ultimately show "get_query_hash md5 (q1 @ '' '') \<noteq> get_query_hash md5 q1"
    by (simp add: get_query_hash_inj)
qed

theorem cache_key_is_hash_of_lowercased_query_witness:
  "lower ''Hello'' = lower ''HELLO'' \<and> inj plain_digest \<and> lower ''Hello'' \<noteq> lower ''Help'' \<and>
   cache_get plain_digest (cache_set plain_digest empty_cache ''Hello'' entry0 0) ''HELLO'' 5000
     = Some entry0 \<and>
   cache_get plain_digest (cache_set plain_digest empty_cache ''Hello'' entry0 0) ''Help'' 5000
     = None \<and>
   get_query_hash plain_digest ''Hello '' \<noteq> get_query_hash plain_digest ''Hello''"
proof -
  have i: "inj plain_digest" by (simp add: inj_def plain_digest_def)
  have t: "cache_entry.truncate entry0 = entry0" by (simp add: cache_entry.defs)
  have n: "cache_get plain_digest empty_cache ''Help'' 5000 = None"
    by (simp add: cache_get_def empty_cache_def dc_get_def)
  show ?thesis
    using cache_key_is_hash_of_lowercased_query
            [of "''Hello''" "''HELLO''" plain_digest empty_cache entry0 0 5000]
          cache_key_is_hash_of_lowercased_query
            [of "''Hello''" "''Help''" plain_digest empty_cache entry0 0 5000]
          i t n lower_Hello lower_Hello_ne
    by simp
qed

section \<open>Properties of the rule-based classifier\<close>






section \<open>Properties of the model selector\<close>

lemma select_model_try_Inr:
  "select_model_try th fb label conf = Inr m \<Longrightarrow>
   m = (if threshold_met th label conf
        then (case model_mapping label of None \<Rightarrow> fb | Some x \<Rightarrow> x) else fb)"
  by (auto simp: select_model_try_def threshold_met_def split: option.splits threshold.splits if_splits)

lemma select_model_try_Inl:
  "select_model_try th fb label conf = Inl e \<Longrightarrow> th label = Some NonNumeric"
  by (auto simp: select_model_try_def split: option.splits threshold.splits if_splits)

lemma select_model_eq:
  assumes "routing cfg = Some rc" and "confidence_thresholds rc = Some th"
  shows "select_model cfg label conf =
     Inr (if threshold_met th label conf
          then (case model_mapping label of None \<Rightarrow> configured_fallback rc | Some m \<Rightarrow> m)
          else configured_fallback rc)"
proof (cases "select_model_try th (configured_fallback rc) label conf")
  case (Inl e)
  then have "th label = Some NonNumeric" by (rule select_model_try_Inl)
  with Inl assms show ?thesis
    by (simp add: select_model_def configured_fallback_def threshold_met_def)
next
  case (Inr m)
  from select_model_try_Inr [OF Inr] Inr assms show ?thesis
    by (simp add: select_model_def configured_fallback_def)
qed

lemma model_mapping_ran:
  "model_mapping label = Some m \<Longrightarrow> m \<in> {''ollama-simple'', ''ollama-medium'', ''gpt2-large''}"
  by (auto simp: model_mapping_def split: if_splits)

lemma select_model_routing:
  "routing c1 = routing c2 \<Longrightarrow> select_model c1 label conf = select_model c2 label conf"
  by (simp add: select_model_def)

lemma select_model_range:
  assumes "select_model cfg label conf = Inr m"
  shows "m \<in> {''ollama-simple'', ''ollama-medium'', ''gpt2-large''} \<or>
         (\<exists>rc. routing cfg = Some rc \<and> fallback_model rc = Some m)"
proof -
  from assms obtain rc th where rc: "routing cfg = Some rc" and th: "confidence_thresholds rc = Some th"
    by (auto simp: select_model_def split: option.splits)
  have fb: "configured_fallback rc = ''ollama-simple'' \<or> fallback_model rc = Some (configured_fallback rc)"
    by (simp add: configured_fallback_def split: option.split)
  from assms have "m = configured_fallback rc \<or> model_mapping label = Some m"
    by (auto simp: select_model_eq [OF rc th] split: if_splits option.splits)
  with fb rc show ?thesis
    by (auto dest: model_mapping_ran)
qed

lemma select_default_medium:
  "routing cfg = Some default_routing \<Longrightarrow> select_model cfg ''medium'' (8/10) = Inr ''ollama-medium''"
  by (simp add: select_model_def select_model_try_def default_routing_def model_mapping_def)

text \<open>
  C3, as stated, fails in three ways. Below its threshold the label \<^verbatim>\<open>simple\<close> still gets
  its own mapped model, because the fallback is that very model (it is also the default
  fallback). The label \<^verbatim>\<open>expert\<close> has a threshold and meets it, but has no mapped model,
  and gets the fallback. A routing section without \<^verbatim>\<open>confidence_thresholds\<close> makes the
  selector raise \<^verbatim>\<open>KeyError\<close>: that lookup is outside the \<^verbatim>\<open>try\<close> block.
\<close>

theorem select_model_counterexample:
  "select_model full_config ''simple'' 0.5 = Inr ''ollama-simple'' \<and>
   model_mapping ''simple'' = Some ''ollama-simple'' \<and>
   routing full_config = Some default_routing \<and>
   \<not> threshold_met (the (confidence_thresholds default_routing)) ''simple'' 0.5 \<and>
   select_model full_config ''expert'' 0.9 = Inr ''ollama-simple'' \<and>
   model_mapping ''expert'' = None \<and>
   select_model no_thresholds_config ''simple'' 0.9 = Inl (KeyError ''confidence_thresholds'')"
  by (simp add: select_model_def select_model_try_def full_config_def default_routing_def
        no_thresholds_config_def model_mapping_def threshold_met_def)

text \<open>
  C3, amended. When the routing section has its \<^verbatim>\<open>confidence_thresholds\<close>, the selector
  never raises. It returns the label's mapped model id when the label has a numeric
  threshold, the confidence reaches it and the label is one of the three mapped labels; in
  every other case (confidence below the threshold, no threshold for the label, a threshold
  that cannot be compared, a label without a mapping) it returns the fallback model id,
  which may be the same id as the mapped one.
\<close>

theorem select_model_decision:
  "routing cfg = Some rc \<and> confidence_thresholds rc = Some th \<longrightarrow>
     select_model cfg label conf =
       Inr (if threshold_met th label conf
            then (case model_mapping label of None \<Rightarrow> configured_fallback rc | Some m \<Rightarrow> m)
            else configured_fallback rc)"
  by (auto simp: select_model_eq)

theorem select_model_decision_witness:
  "routing full_config = Some default_routing \<and>
   select_model full_config ''advanced'' 0.85 = Inr ''gpt2-large'' \<and>
   select_model full_config ''advanced'' 0.7 = Inr ''ollama-simple'' \<and>
   select_model full_config ''unknown'' 0.99 = Inr ''ollama-simple'' \<and>
   select_model full_config ''broken'' 0.99 = Inr ''ollama-simple''"
proof -
  have r: "routing full_config = Some default_routing"
    by (simp add: full_config_def)
  note d = select_model_decision [of full_config default_routing
             "the (confidence_thresholds default_routing)"]
  show ?thesis
    using r d [of "''advanced''" "0.85"] d [of "''advanced''" "0.7"] d [of "''unknown''" "0.99"]
      d [of "''broken''" "0.99"]
    by (simp add: default_routing_def configured_fallback_def model_mapping_def threshold_met_def)
qed

section \<open>Properties of the router\<close>

lemma bump_total_simps [simp]:
  "router_config (bump_total r) = router_config r"
  "router_cache (bump_total r) = router_cache r"
  "router_classifier (bump_total r) = router_classifier r"
  by (simp_all add: bump_total_def)

lemma bump_total_metrics:
  "total_queries (router_metrics (bump_total r)) = total_queries (router_metrics r) + 1"
  "cache_hits (router_metrics (bump_total r)) = cache_hits (router_metrics r)"
  "model_usage (router_metrics (bump_total r)) = model_usage (router_metrics r)"
  "total_cost (router_metrics (bump_total r)) = total_cost (router_metrics r)"
  "total_time (router_metrics (bump_total r)) = total_time (router_metrics r)"
  by (simp_all add: bump_total_def)

lemma bump_total_cache_update:
  "bump_total (r\<lparr>router_cache := c\<rparr>) = (bump_total r)\<lparr>router_cache := c\<rparr>"
  by (simp add: bump_total_def)

lemma route_query_forced:
  "truthy force_model \<Longrightarrow>
   route_query md5 b now now' r q force_model =
     (case models (router_config r) (the force_model) of
        None \<Rightarrow> (Inl (ValueError (''Model '' @ the force_model @ '' not found in configuration'')),
                 bump_total r)
      | Some mc \<Rightarrow>
          (case generate_response b mc q of
             Inl e \<Rightarrow> (Inl e, bump_total r)
           | Inr (resp, speed, acc) \<Rightarrow>
               (case model_cost mc of
                  None \<Rightarrow> (Inl (KeyError ''cost''), bump_total r)
                | Some c \<Rightarrow>
                    (Inr \<lparr>query = q, model_used = the force_model, response = resp,
                          speed_ms = speed, accuracy = acc, cost = c,
                          classification = ''forced'', confidence = 1, from_cache = False\<rparr>,
                     (bump_total r)\<lparr>router_metrics :=
                        update_metrics (router_metrics (bump_total r)) (the force_model) speed c\<rparr>))))"
  by (simp add: route_query_def Let_def bump_total_def split: sum.split option.split prod.split)

lemma route_query_hit:
  "\<not> truthy force_model \<Longrightarrow> cache_get md5 (router_cache r) q now = Some e \<Longrightarrow>
   route_query md5 b now now' r q force_model =
     (Inr (cache_entry.extend e (RoutingResult.fields True)),
      (bump_total r)\<lparr>router_metrics :=
         (router_metrics (bump_total r))\<lparr>cache_hits := cache_hits (router_metrics r) + 1\<rparr>\<rparr>)"
  by (simp add: route_query_def Let_def bump_total_def)

lemma route_query_miss:
  "\<not> truthy force_model \<Longrightarrow> cache_get md5 (router_cache r) q now = None \<Longrightarrow>
   classify (router_classifier r) q = (label, conf) \<Longrightarrow>
   route_query md5 b now now' r q force_model =
     (case select_model (router_config r) label conf of
        Inl e \<Rightarrow> (Inl e, bump_total r)
      | Inr chosen_model \<Rightarrow>
          (case models (router_config r) chosen_model of
             None \<Rightarrow> (Inl (KeyError chosen_model), bump_total r)
           | Some mc \<Rightarrow>
               (case generate_response b mc q of
                  Inl e \<Rightarrow> (Inl e, bump_total r)
                | Inr (resp, speed, acc) \<Rightarrow>
                    (case model_cost mc of
                       None \<Rightarrow> (Inl (KeyError ''cost''), bump_total r)
                     | Some c \<Rightarrow>
                         (Inr \<lparr>query = q, model_used = chosen_model, response = resp,
                               speed_ms = speed, accuracy = acc, cost = c,
                               classification = label, confidence = conf, from_cache = False\<rparr>,
                          (bump_total r)\<lparr>router_metrics :=
                             update_metrics (router_metrics (bump_total r)) chosen_model speed c,
                            router_cache :=
                              cache_set md5 (router_cache r) q
                                \<lparr>query = q, model_used = chosen_model, response = resp,
                                 speed_ms = speed, accuracy = acc, cost = c,
                                 classification = label, confidence = conf\<rparr> now'\<rparr>)))))"
  by (simp add: route_query_def Let_def bump_total_def cache_entry.defs RoutingResult.defs
        split: sum.split option.split prod.split)

lemma route_query_error_state:
  assumes "fst (route_query md5 b now now' r q force_model) = Inl e"
  shows "snd (route_query md5 b now now' r q force_model) = bump_total r"
proof (cases "truthy force_model")
  case True
  with assms show ?thesis
    by (auto simp: route_query_forced split: sum.splits option.splits prod.splits)
next
  case False
  show ?thesis
  proof (cases "cache_get md5 (router_cache r) q now")
    case (Some c)
    with False assms show ?thesis by (simp add: route_query_hit)
  next
    case None
    obtain label conf where cl: "classify (router_classifier r) q = (label, conf)"
      by (cases "classify (router_classifier r) q") auto
    from assms show ?thesis
      by (auto simp: route_query_miss [OF False None cl]
               split: sum.splits option.splits prod.splits)
  qed
qed

lemma fresh_router_simps:
  "router_config (fresh_router cfg) = cfg"
  "router_cache (fresh_router cfg) = empty_cache"
  "router_classifier (fresh_router cfg) = rule_classifier"
  "router_metrics (fresh_router cfg) = zero_metrics"
  by (simp_all add: fresh_router_def)

lemma cache_get_empty: "cache_get md5 empty_cache q t = None"
  by (simp add: cache_get_def empty_cache_def dc_get_def)

lemma rule_based_hi: "rule_based_classification lower_case_config ''hi'' = (''medium'', 0.8)"
  by code_simp

lemma classify_rule: "classify rule_classifier q = rule_based_classification lower_case_config q"
  by (simp add: classify_def rule_classifier_def)

lemma gen_gpt2_ok:
  "generate_response answering_backends gpt2_large q = Inr (''text'', 300, 85/100)"
  by (simp add: generate_response_def answering_backends_def gpt2_large_def)

lemma gen_gpt2_fail:
  "generate_response failing_backends gpt2_large q = Inl (GenerationError ''pipeline'')"
  by (simp add: generate_response_def failing_backends_def gpt2_large_def)

lemma gen_medium_fail:
  "generate_response failing_backends ollama_medium q = Inl (GenerationError ''Ollama API error'')"
  by (simp add: generate_response_def failing_backends_def ollama_medium_def)

lemma full_config_models:
  "models full_config ''gpt2-large'' = Some gpt2_large"
  "models full_config ''ollama-medium'' = Some ollama_medium"
  "models full_config ''gpt-4'' = None"
  by (simp_all add: full_config_def)

lemma warm_router_hit: "cache_get plain_digest (router_cache warm_router) ''HELLO'' 5 = Some entry0"
proof -
  have "get_query_hash plain_digest ''HELLO'' = get_query_hash plain_digest ''Hello''"
    using lower_Hello by (simp add: get_query_hash_def)
  then have "cache_get plain_digest (cache_set plain_digest empty_cache ''Hello'' entry0 0) ''HELLO'' 5
               = Some (cache_entry.truncate entry0)"
    by (rule cache_get_set_same_key)
  then show ?thesis by (simp add: warm_router_def cache_entry.defs)
qed

text \<open>
  C4, as stated, fails for the empty model id: \<^verbatim>\<open>if force_model:\<close> is false for the empty
  string, so a call forced to the model registered under the empty id is routed as an
  unforced one. It reads the cache, classifies the query and writes the result to the cache.
\<close>

theorem empty_forced_model_uses_cache_counterexample:
  "models (router_config (fresh_router full_config)) '''' = Some ollama_simple \<and>
   fst (route_query plain_digest answering_backends 0 1 (fresh_router full_config) ''hi'' (Some ''''))
     = Inr \<lparr>query = ''hi'', model_used = ''ollama-medium'', response = ''text'', speed_ms = 40,
            accuracy = 0.8, cost = 0.002, classification = ''medium'', confidence = 0.8,
            from_cache = False\<rparr> \<and>
   cache_get plain_digest (router_cache (fresh_router full_config)) ''hi'' 2 = None \<and>
   cache_get plain_digest
     (router_cache (snd (route_query plain_digest answering_backends 0 1 (fresh_router full_config)
        ''hi'' (Some '''')))) ''hi'' 2
     = Some \<lparr>query = ''hi'', model_used = ''ollama-medium'', response = ''text'', speed_ms = 40,
            accuracy = 0.8, cost = 0.002, classification = ''medium'', confidence = 0.8\<rparr>"
proof -
  have nt: "\<not> truthy (Some '''')" by (simp add: truthy_def)
  have miss: "cache_get plain_digest (router_cache (fresh_router full_config)) ''hi'' 0 = None"
    by (simp add: cache_get_def fresh_router_def empty_cache_def dc_get_def)
  have miss2: "cache_get plain_digest (router_cache (fresh_router full_config)) ''hi'' 2 = None"
    by (simp add: cache_get_def fresh_router_def empty_cache_def dc_get_def)
  have cl: "classify (router_classifier (fresh_router full_config)) ''hi'' = (''medium'', 0.8)"
    by (simp add: classify_def fresh_router_def rule_classifier_def rule_based_hi)
  have m: "models full_config ''ollama-medium'' = Some ollama_medium"
    by (simp add: full_config_def)
  have m0: "models (router_config (fresh_router full_config)) '''' = Some ollama_simple"
    by (simp add: full_config_def fresh_router_def)
  have c: "model_cost ollama_medium = Some 0.002" by (simp add: ollama_medium_def)
  have cfg: "router_config (fresh_router full_config) = full_config" by (simp add: fresh_router_def)
  note rq = route_query_miss [OF nt miss cl, of answering_backends 1]
  show ?thesis
    unfolding rq cfg
    by (simp add: fresh_router_simps cache_get_empty cache_get_set_same_key cache_entry.defs
          select_model_def select_model_try_def full_config_def default_routing_def
          model_mapping_def generate_response_def answering_backends_def ollama_medium_def)
qed

text \<open>
  C4, amended. A call forced to a non-empty model id of the registry leaves the cache as
  it was and does not read it: with any other cache in the router the result is the same
  and the router differs in the cache only. When the backend answers and the model has a
  cost, the result carries the classification \<^verbatim>\<open>forced\<close>, confidence 1 and
  \<^verbatim>\<open>from_cache = False\<close>, and so does every result the call returns.
\<close>

theorem forced_route_bypasses_cache:
  "force_model = Some fm \<and> fm \<noteq> [] \<and> models (router_config r) fm = Some mc \<longrightarrow>
     router_cache (snd (route_query md5 b now now' r q force_model)) = router_cache r \<and>
     route_query md5 b now now' (r\<lparr>router_cache := c\<rparr>) q force_model =
       (fst (route_query md5 b now now' r q force_model),
        (snd (route_query md5 b now now' r q force_model))\<lparr>router_cache := c\<rparr>) \<and>
     (generate_response b mc q = Inr (resp, speed, acc) \<and> model_cost mc = Some k \<longrightarrow>
        fst (route_query md5 b now now' r q force_model) =
          Inr \<lparr>query = q, model_used = fm, response = resp, speed_ms = speed, accuracy = acc,
                cost = k, classification = ''forced'', confidence = 1, from_cache = False\<rparr>) \<and>
     (fst (route_query md5 b now now' r q force_model) = Inr res \<longrightarrow>
        classification res = ''forced'' \<and> confidence res = 1 \<and> \<not> from_cache res)"
proof (intro impI)
  assume h: "force_model = Some fm \<and> fm \<noteq> [] \<and> models (router_config r) fm = Some mc"
  then have fm: "force_model = Some fm" and ne: "fm \<noteq> []"
    and mc: "models (router_config r) fm = Some mc"
    by simp_all
  have t: "truthy (Some fm)" using ne by (simp add: truthy_def)
  note rq = route_query_forced [OF t, of md5 b now now' _ q, simplified option.sel]
  have 1: "router_cache (snd (route_query md5 b now now' r q force_model)) = router_cache r"
    unfolding fm using mc by (simp add: rq split: sum.split option.split prod.split)
  have 2: "route_query md5 b now now' (r\<lparr>router_cache := c\<rparr>) q force_model =
       (fst (route_query md5 b now now' r q force_model),
        (snd (route_query md5 b now now' r q force_model))\<lparr>router_cache := c\<rparr>)"
    unfolding fm using mc
    by (simp add: rq bump_total_cache_update bump_total_def
          split: sum.split option.split prod.split)
  have 3: "generate_response b mc q = Inr (resp, speed, acc) \<and> model_cost mc = Some k \<longrightarrow>
        fst (route_query md5 b now now' r q force_model) =
          Inr \<lparr>query = q, model_used = fm, response = resp, speed_ms = speed, accuracy = acc,
                cost = k, classification = ''forced'', confidence = 1, from_cache = False\<rparr>"
    unfolding fm using mc by (simp add: rq)
  have 4: "fst (route_query md5 b now now' r q force_model) = Inr res \<longrightarrow>
        classification res = ''forced'' \<and> confidence res = 1 \<and> \<not> from_cache res"
    unfolding fm using mc by (auto simp: rq split: sum.splits option.splits prod.splits)
  from 1 2 3 4 show "router_cache (snd (route_query md5 b now now' r q force_model)) = router_cache r \<and>
     route_query md5 b now now' (r\<lparr>router_cache := c\<rparr>) q force_model =
       (fst (route_query md5 b now now' r q force_model),
        (snd (route_query md5 b now now' r q force_model))\<lparr>router_cache := c\<rparr>) \<and>
     (generate_response b mc q = Inr (resp, speed, acc) \<and> model_cost mc = Some k \<longrightarrow>
        fst (route_query md5 b now now' r q force_model) =
          Inr \<lparr>query = q, model_used = fm, response = resp, speed_ms = speed, accuracy = acc,
                cost = k, classification = ''forced'', confidence = 1, from_cache = False\<rparr>) \<and>
     (fst (route_query md5 b now now' r q force_model) = Inr res \<longrightarrow>
        classification res = ''forced'' \<and> confidence res = 1 \<and> \<not> from_cache res)"
    by blast
qed

theorem forced_route_bypasses_cache_witness:
  "''gpt2-large'' \<noteq> [] \<and>
   models (router_config (fresh_router full_config)) ''gpt2-large'' = Some gpt2_large \<and>
   generate_response answering_backends gpt2_large ''hi'' = Inr (''text'', 300, 85/100) \<and>
   model_cost gpt2_large = Some (1/100) \<and>
   fst (route_query plain_digest answering_backends 0 1 (fresh_router full_config) ''hi''
          (Some ''gpt2-large'')) =
     Inr \<lparr>query = ''hi'', model_used = ''gpt2-large'', response = ''text'', speed_ms = 300,
           accuracy = 85/100, cost = 1/100, classification = ''forced'', confidence = 1,
           from_cache = False\<rparr> \<and>
   router_cache (snd (route_query plain_digest answering_backends 0 1 (fresh_router full_config)
          ''hi'' (Some ''gpt2-large''))) = empty_cache"
proof -
  have m: "models (router_config (fresh_router full_config)) ''gpt2-large'' = Some gpt2_large"
    by (simp add: fresh_router_simps full_config_models)
  have k: "model_cost gpt2_large = Some (1/100)" by (simp add: gpt2_large_def)
  from forced_route_bypasses_cache
         [where force_model = "Some ''gpt2-large''" and fm = "''gpt2-large''"
            and r = "fresh_router full_config" and mc = gpt2_large and ?md5.0 = plain_digest
            and b = answering_backends and now = 0 and now' = 1 and q = "''hi''"
            and c = empty_cache and resp = "''text''" and speed = 300 and acc = "85/100"
            and k = "1/100"
            and res = "\<lparr>query = ''hi'', model_used = ''gpt2-large'', response = ''text'',
                          speed_ms = 300, accuracy = 85/100, cost = 1/100,
                          classification = ''forced'', confidence = 1, from_cache = False\<rparr>"]
       m k gen_gpt2_ok [of "''hi''"]
  show ?thesis by (simp add: fresh_router_simps)
qed

text \<open>
  C6. An unforced call whose query is in the cache returns the stored entry with
  \<^verbatim>\<open>from_cache = True\<close>; the router afterwards differs from the router before in
  \<^verbatim>\<open>total_queries\<close> and \<^verbatim>\<open>cache_hits\<close> only, each one greater, so the other metrics and
  the cache are unchanged. The result is the same with any other model manager, classifier
  and configuration: none of them is consulted.
\<close>

theorem cache_hit_only_counts:
  "\<not> truthy force_model \<and> cache_get md5 (router_cache r) q now = Some e \<longrightarrow>
     route_query md5 b now now' r q force_model =
       (Inr (cache_entry.extend e (RoutingResult.fields True)),
        r\<lparr>router_metrics :=
            (router_metrics r)\<lparr>total_queries := total_queries (router_metrics r) + 1,
                               cache_hits := cache_hits (router_metrics r) + 1\<rparr>\<rparr>) \<and>
     fst (route_query md5 b' now now''
            (r\<lparr>router_classifier := cls, router_config := cfg\<rparr>) q force_model) =
       fst (route_query md5 b now now' r q force_model) \<and>
     cache_entry.truncate (cache_entry.extend e (RoutingResult.fields True)) = e \<and>
     from_cache (cache_entry.extend e (RoutingResult.fields True))"
  by (simp add: route_query_hit bump_total_def cache_entry.defs RoutingResult.defs)

theorem cache_hit_only_counts_witness:
  "\<not> truthy None \<and>
   cache_get plain_digest (router_cache warm_router) ''HELLO'' 5 = Some entry0 \<and>
   route_query plain_digest failing_backends 5 6 warm_router ''HELLO'' None =
     (Inr (cache_entry.extend entry0 (RoutingResult.fields True)),
      warm_router\<lparr>router_metrics :=
         (router_metrics warm_router)\<lparr>total_queries := total_queries (router_metrics warm_router) + 1,
                                      cache_hits := cache_hits (router_metrics warm_router) + 1\<rparr>\<rparr>)"
proof -
  have nt: "\<not> truthy None" by (simp add: truthy_def)
  from cache_hit_only_counts
         [where force_model = None and ?md5.0 = plain_digest and r = warm_router
            and q = "''HELLO''" and now = 5 and e = entry0 and b = failing_backends and now' = 6,
          THEN mp, THEN conjunct1]
       nt warm_router_hit
  show ?thesis by simp
qed

text \<open>
  C7. When the backend invocation of a call fails with \<open>e\<close>, on the forced path or after a
  cache miss, the call returns that very error and no result, and leaves the router as it
  was apart from \<^verbatim>\<open>total_queries\<close>; in particular the cache is unchanged.
\<close>

theorem backend_failure_propagates:
  "(truthy force_model \<and> models (router_config r) (the force_model) = Some mc \<and>
    generate_response b mc q = Inl e \<longrightarrow>
      route_query md5 b now now' r q force_model = (Inl e, bump_total r)) \<and>
   (\<not> truthy force_model \<and> cache_get md5 (router_cache r) q now = None \<and>
    classify (router_classifier r) q = (label, conf) \<and>
    select_model (router_config r) label conf = Inr m \<and>
    models (router_config r) m = Some mc \<and> generate_response b mc q = Inl e \<longrightarrow>
      route_query md5 b now now' r q force_model = (Inl e, bump_total r)) \<and>
   router_cache (bump_total r) = router_cache r"
  by (simp add: route_query_forced route_query_miss)

theorem backend_failure_propagates_witness:
  "truthy (Some ''gpt2-large'') \<and>
   generate_response failing_backends gpt2_large ''hi'' = Inl (GenerationError ''pipeline'') \<and>
   route_query plain_digest failing_backends 0 1 (fresh_router full_config) ''hi''
       (Some ''gpt2-large'') =
     (Inl (GenerationError ''pipeline''), bump_total (fresh_router full_config)) \<and>
   \<not> truthy None \<and>
   generate_response failing_backends ollama_medium ''hi'' = Inl (GenerationError ''Ollama API error'') \<and>
   route_query plain_digest failing_backends 0 1 (fresh_router full_config) ''hi'' None =
     (Inl (GenerationError ''Ollama API error''), bump_total (fresh_router full_config)) \<and>
   router_cache (bump_total (fresh_router full_config)) = empty_cache"
proof -
  have t: "truthy (Some ''gpt2-large'')" by (simp add: truthy_def)
  have nt: "\<not> truthy None" by (simp add: truthy_def)
  have cl: "classify (router_classifier (fresh_router full_config)) ''hi'' = (''medium'', 8/10)"
    using rule_based_hi by (simp add: fresh_router_simps classify_rule)
  have s: "select_model (router_config (fresh_router full_config)) ''medium'' (8/10) = Inr ''ollama-medium''"
    unfolding fresh_router_simps by (rule select_default_medium) (simp add: full_config_def)
  have miss: "cache_get plain_digest (router_cache (fresh_router full_config)) ''hi'' 0 = None"
    by (simp add: fresh_router_simps cache_get_empty)
  have m1: "models (router_config (fresh_router full_config)) (the (Some ''gpt2-large'')) = Some gpt2_large"
    by (simp add: fresh_router_simps full_config_models)
  have m2: "models (router_config (fresh_router full_config)) ''ollama-medium'' = Some ollama_medium"
    by (simp add: fresh_router_simps full_config_models)
  note a = backend_failure_propagates
         [where force_model = "Some ''gpt2-large''" and r = "fresh_router full_config"
            and mc = gpt2_large and b = failing_backends and q = "''hi''"
            and e = "GenerationError ''pipeline''" and ?md5.0 = plain_digest and now = 0
            and now' = 1, THEN conjunct1, THEN mp]
  note b = backend_failure_propagates
         [where force_model = None and r = "fresh_router full_config"
            and mc = ollama_medium and b = failing_backends and q = "''hi''"
            and e = "GenerationError ''Ollama API error''" and ?md5.0 = plain_digest and now = 0
            and now' = 1 and label = "''medium''" and conf = "8/10" and m = "''ollama-medium''",
          THEN conjunct2, THEN conjunct1, THEN mp]
  have A: "route_query plain_digest failing_backends 0 1 (fresh_router full_config) ''hi''
       (Some ''gpt2-large'') =
     (Inl (GenerationError ''pipeline''), bump_total (fresh_router full_config))"
    using t m1 gen_gpt2_fail by (intro a) simp
  have B: "route_query plain_digest failing_backends 0 1 (fresh_router full_config) ''hi'' None =
     (Inl (GenerationError ''Ollama API error''), bump_total (fresh_router full_config))"
    using nt miss cl s m2 gen_medium_fail by (intro b) simp
  from A B t nt show ?thesis
    by (simp add: gen_gpt2_fail gen_medium_fail fresh_router_simps)
qed

text \<open>
  C9. The selector's answer is the same for two configurations with the same routing
  section, whatever their model registries. An id it returns is one of the three
  hard-coded ids or the configured fallback. The id need not be in the registry: when it
  is not, the unforced call that selected it raises \<^verbatim>\<open>KeyError\<close> at the registry lookup.
\<close>

theorem select_model_ignores_model_registry:
  "(routing c1 = routing c2 \<longrightarrow> select_model c1 label conf = select_model c2 label conf) \<and>
   (select_model c1 label conf = Inr m \<longrightarrow>
      m \<in> {''ollama-simple'', ''ollama-medium'', ''gpt2-large''} \<or>
      (\<exists>rc. routing c1 = Some rc \<and> fallback_model rc = Some m)) \<and>
   (\<not> truthy force_model \<and> cache_get md5 (router_cache r) q now = None \<and>
    classify (router_classifier r) q = (label, conf) \<and>
    select_model (router_config r) label conf = Inr m \<and> models (router_config r) m = None \<longrightarrow>
      route_query md5 b now now' r q force_model = (Inl (KeyError m), bump_total r))"
proof (intro conjI impI)
  assume "routing c1 = routing c2"
  then show "select_model c1 label conf = select_model c2 label conf"
    by (rule select_model_routing)
next
  assume "select_model c1 label conf = Inr m"
  then show "m \<in> {''ollama-simple'', ''ollama-medium'', ''gpt2-large''} \<or>
      (\<exists>rc. routing c1 = Some rc \<and> fallback_model rc = Some m)"
    by (rule select_model_range)
next
  assume h: "\<not> truthy force_model \<and> cache_get md5 (router_cache r) q now = None \<and>
    classify (router_classifier r) q = (label, conf) \<and>
    select_model (router_config r) label conf = Inr m \<and> models (router_config r) m = None"
  then have "route_query md5 b now now' r q force_model =
     (case select_model (router_config r) label conf of
        Inl e \<Rightarrow> (Inl e, bump_total r)
      | Inr chosen_model \<Rightarrow>
          (case models (router_config r) chosen_model of
             None \<Rightarrow> (Inl (KeyError chosen_model), bump_total r)
           | Some mc \<Rightarrow> undefined))"
    by (simp add: route_query_miss split: sum.split option.split)
  with h show "route_query md5 b now now' r q force_model = (Inl (KeyError m), bump_total r)"
    by simp
qed

theorem select_model_ignores_model_registry_witness:
  "routing full_config = routing no_models_config \<and>
   select_model full_config ''medium'' 0.8 = Inr ''ollama-medium'' \<and>
   select_model no_models_config ''medium'' 0.8 = Inr ''ollama-medium'' \<and>
   models no_models_config ''ollama-medium'' = None \<and>
   route_query plain_digest answering_backends 0 1 (fresh_router no_models_config) ''hi'' None =
     (Inl (KeyError ''ollama-medium''), bump_total (fresh_router no_models_config))"
proof -
  have r: "routing full_config = routing no_models_config"
    by (simp add: full_config_def no_models_config_def)
  have s: "select_model no_models_config ''medium'' (8/10) = Inr ''ollama-medium''"
    by (rule select_default_medium) (simp add: no_models_config_def)
  have s': "select_model full_config ''medium'' (8/10) = Inr ''ollama-medium''"
    by (rule select_default_medium) (simp add: full_config_def)
  have m: "models no_models_config ''ollama-medium'' = None"
    by (simp add: no_models_config_def)
  have nt: "\<not> truthy None" by (simp add: truthy_def)
  have cl: "classify (router_classifier (fresh_router no_models_config)) ''hi'' = (''medium'', 8/10)"
    using rule_based_hi by (simp add: fresh_router_simps classify_rule)
  have miss: "cache_get plain_digest (router_cache (fresh_router no_models_config)) ''hi'' 0 = None"
    by (simp add: fresh_router_simps cache_get_empty)
  from select_model_ignores_model_registry
         [where ?c1.0 = no_models_config and ?c2.0 = full_config and label = "''medium''"
            and conf = "8/10" and m = "''ollama-medium''" and force_model = None
            and ?md5.0 = plain_digest and r = "fresh_router no_models_config" and q = "''hi''"
            and now = 0 and now' = 1 and b = answering_backends]
       r s s' m nt cl miss
  show ?thesis by (simp add: fresh_router_simps)
qed

text \<open>
  C10. Whenever \<^verbatim>\<open>route_query\<close> raises, the router it leaves behind is the router before
  the call with \<^verbatim>\<open>total_queries\<close> one greater: \<^verbatim>\<open>cache_hits\<close>, \<^verbatim>\<open>model_usage\<close>,
  \<^verbatim>\<open>total_cost\<close>, \<^verbatim>\<open>total_time\<close> and the cache are unchanged. A forced model that is not
  in the registry raises \<^verbatim>\<open>ValueError\<close>; a failing backend raises by C7.
\<close>

theorem failed_route_counts_query:
  "(fst (route_query md5 b now now' r q force_model) = Inl e \<longrightarrow>
      snd (route_query md5 b now now' r q force_model) = bump_total r) \<and>
   (truthy force_model \<and> models (router_config r) (the force_model) = None \<longrightarrow>
      fst (route_query md5 b now now' r q force_model) =
        Inl (ValueError (''Model '' @ the force_model @ '' not found in configuration''))) \<and>
   total_queries (router_metrics (bump_total r)) = total_queries (router_metrics r) + 1 \<and>
   cache_hits (router_metrics (bump_total r)) = cache_hits (router_metrics r) \<and>
   model_usage (router_metrics (bump_total r)) = model_usage (router_metrics r) \<and>
   total_cost (router_metrics (bump_total r)) = total_cost (router_metrics r) \<and>
   total_time (router_metrics (bump_total r)) = total_time (router_metrics r) \<and>
   router_cache (bump_total r) = router_cache r"
  by (simp add: route_query_error_state route_query_forced bump_total_metrics)

theorem failed_route_counts_query_witness:
  "truthy (Some ''gpt-4'') \<and>
   models (router_config (fresh_router full_config)) (the (Some ''gpt-4'')) = None \<and>
   fst (route_query plain_digest answering_backends 0 1 (fresh_router full_config) ''hi''
          (Some ''gpt-4'')) = Inl (ValueError ''Model gpt-4 not found in configuration'') \<and>
   snd (route_query plain_digest answering_backends 0 1 (fresh_router full_config) ''hi''
          (Some ''gpt-4'')) = bump_total (fresh_router full_config) \<and>
   total_queries (router_metrics (bump_total (fresh_router full_config))) = 1 \<and>
   router_cache (bump_total (fresh_router full_config)) = empty_cache"
proof -
  have t: "truthy (Some ''gpt-4'')" by (simp add: truthy_def)
  have m: "models (router_config (fresh_router full_config)) (the (Some ''gpt-4'')) = None"
    by (simp add: fresh_router_simps full_config_models)
  from failed_route_counts_query
         [where force_model = "Some ''gpt-4''" and r = "fresh_router full_config"
            and ?md5.0 = plain_digest and b = answering_backends and now = 0 and now' = 1
            and q = "''hi''" and e = "ValueError ''Model gpt-4 not found in configuration''"]
       t m
  show ?thesis by (simp add: fresh_router_simps zero_metrics_def)
qed

section \<open>Properties of the cache statistics\<close>

lemma get_stats_degrades:
  "volume_handler io = Inr v \<Longrightarrow> len_handler io = Inr n \<Longrightarrow> get_stats_try io = Inl e \<Longrightarrow>
   get_stats io = Inr \<lparr>stats_size = v, stats_items = n, hit_rate = 0\<rparr>"
  by (simp add: get_stats_def)

text \<open>
  C8. The claim is that \<^verbatim>\<open>get_stats\<close> never raises. The \<^verbatim>\<open>except\<close> handler calls
  \<^verbatim>\<open>volume()\<close> and \<^verbatim>\<open>len()\<close> again, outside any \<^verbatim>\<open>try\<close>: on a storage where \<^verbatim>\<open>volume()\<close>
  fails, the first failure is caught and the second one is raised to the caller.
\<close>

theorem get_stats_raises_on_storage_failure:
  "get_stats failing_storage = Inl StorageError"
  by (simp add: get_stats_def get_stats_try_def failing_storage_def)

end
